theory Spec2Isabelle
  imports Main "HOL-Library.Word"
begin

section \<open>NetRT: a TensorRT inference engine behind the OpenPose Net interface\<close>

text \<open>
  A shallow embedding of \<^verbatim>\<open>src/openpose/net/netRT.cpp\<close> and
  \<^verbatim>\<open>include/openpose/net/netRT.hpp\<close>. Every member function becomes a function
  on explicit state: the members of \<^verbatim>\<open>ImplNetRT\<close>, the CUDA device, and the two
  process-wide globals. An exception leaves the function at once with the state reached
  so far, so a function returns the exception (if any) beside the state.
\<close>

subsection \<open>Machine types\<close>

text \<open>
  A C++ \<^verbatim>\<open>int\<close> that takes part in arithmetic is a 32-bit word read as two's
  complement by \<open>sint\<close>; its multiplication wraps around, as the compiled code does.
  A \<^verbatim>\<open>float\<close> is its 32-bit pattern: the program only moves floats. A device
  pointer is an address, 0 for \<^verbatim>\<open>nullptr\<close>. Binding indices and the GPU id are
  \<^verbatim>\<open>int\<close>s that are only stored and compared, never computed with: they are \<open>int\<close>.
\<close>

type_synonym cint = "32 word"
type_synonym float = "32 word"
type_synonym devptr = nat

subsection \<open>Failures\<close>

text \<open>
  The ways a member function is left other than by returning. \<open>OpError\<close> is the
  exception of \<^verbatim>\<open>op::error\<close>, with its message. The others are not raised by this
  program's own checks: \<open>DeviceError\<close> is what \<^verbatim>\<open>cudaCheck\<close> raises for a CUDA
  error code, \<open>StdLengthError\<close> is the exception of \<^verbatim>\<open>std::vector\<close>'s constructor
  for a size beyond \<^verbatim>\<open>max_size()\<close>, and \<open>BadPointerCall\<close> is a call through a
  pointer that is null or does not point to an object of its type: the process crashes,
  no C++ exception is raised.
\<close>

datatype failure =
    OpError string
  | DeviceError nat
  | StdLengthError
  | BadPointerCall

text \<open>
  Modelled from the spec: \<^verbatim>\<open>op::error(message, line, function, file)\<close>, which is
  declared outside the two source files. "All failures are reported synchronously to the
  caller at the point of detection", with "no structured error code exposed to callers --
  callers distinguish failure classes only by message content". So \<open>error\<close> raises, and
  the exception carries the message it was given (the file, line and function are left
  out).
\<close>

definition error :: "string \<Rightarrow> failure" where
  "error message = OpError message"

subsection \<open>Constants of the class\<close>

definition INPUT_BLOB_NAME :: string where
  "INPUT_BLOB_NAME = ''image''"

definition OUTPUT_BLOB_NAME :: string where
  "OUTPUT_BLOB_NAME = ''net_output''"

definition NB_BINDINGS :: int where
  "NB_BINDINGS = 2"

definition INPUT_IMAGE_NBR_CHANNELS :: cint where
  "INPUT_IMAGE_NBR_CHANNELS = 3"

definition INPUT_IMAGE_HEIGHT :: cint where
  "INPUT_IMAGE_HEIGHT = 320"

definition INPUT_IMAGE_WIDTH :: cint where
  "INPUT_IMAGE_WIDTH = 240"

definition OUTPUT_HEATMAP_NB_CHANNELS :: cint where
  "OUTPUT_HEATMAP_NB_CHANNELS = 57"

definition OUTPUT_HEATMAP_HEIGHT :: cint where
  "OUTPUT_HEATMAP_HEIGHT = 40"

definition OUTPUT_HEATMAP_WIDTH :: cint where
  "OUTPUT_HEATMAP_WIDTH = 30"

text \<open>\<^verbatim>\<open>sizeof(float)\<close>, a \<^verbatim>\<open>size_t\<close>.\<close>

definition sizeof_float :: nat where
  "sizeof_float = 4"

text \<open>
  The two byte counts handed to \<^verbatim>\<open>cudaMalloc\<close>: a product of \<^verbatim>\<open>int\<close>s, converted
  to \<^verbatim>\<open>size_t\<close> by the last factor.
\<close>

definition input_bytes :: nat where
  "input_bytes =
     nat (sint (1 * INPUT_IMAGE_NBR_CHANNELS * INPUT_IMAGE_HEIGHT * INPUT_IMAGE_WIDTH)) * sizeof_float"

definition output_bytes :: nat where
  "output_bytes =
     nat (sint (1 * OUTPUT_HEATMAP_NB_CHANNELS * OUTPUT_HEATMAP_HEIGHT * OUTPUT_HEATMAP_WIDTH))
       * sizeof_float"

subsection \<open>The input tensor\<close>

text \<open>
  Modelled from the spec: \<^verbatim>\<open>op::Array<float>\<close>, which is declared outside the two
  source files. It is a host-resident array with a list of dimension sizes ("[batch,
  channel, height, width]"). \<open>mSize\<close> is what \<^verbatim>\<open>getSize()\<close> returns, a
  \<^verbatim>\<open>std::vector<int>\<close>; \<open>mData\<close> is the host memory behind \<^verbatim>\<open>getConstPtr()\<close>,
  read by offset.
\<close>

record Array =
  mSize :: "cint list"
  mData :: "nat \<Rightarrow> float"

text \<open>Modelled from the spec: \<^verbatim>\<open>Array::getNumberDimensions\<close>, the number of sizes.\<close>

definition getNumberDimensions :: "Array \<Rightarrow> nat" where
  "getNumberDimensions a = length (mSize a)"

text \<open>
  Modelled from the spec: \<^verbatim>\<open>Array::getVolume\<close>, the "total element count", which is
  "the product of all dimension sizes"; an array without dimensions has no element. The
  count is a \<^verbatim>\<open>size_t\<close>, wide enough for the product.
\<close>

definition getVolume :: "Array \<Rightarrow> nat" where
  "getVolume a = (if mSize a = [] then 0 else nat (prod_list (map sint (mSize a))))"

text \<open>
  Modelled from the spec: \<^verbatim>\<open>Array::empty\<close>; a tensor is "non-empty" when it has an
  element.
\<close>

definition empty :: "Array \<Rightarrow> bool" where
  "empty a = (getVolume a = 0)"

text \<open>
  \<^verbatim>\<open>std::to_string(int)\<close>: the decimal digits, after a minus sign for a negative
  value.
\<close>

definition digit_char :: "nat \<Rightarrow> char" where
  "digit_char d = ''0123456789'' ! d"

function to_string_nat :: "nat \<Rightarrow> string" where
  "to_string_nat n =
     (if n < 10 then [digit_char n] else to_string_nat (n div 10) @ [digit_char (n mod 10)])"
  by pat_completeness auto
termination
  by (relation "measure id") auto

declare to_string_nat.simps [simp del]

definition to_string :: "cint \<Rightarrow> string" where
  "to_string i =
     (if sint i < 0 then CHR ''-'' # to_string_nat (nat (- sint i)) else to_string_nat (nat (sint i)))"

subsection \<open>The CUDA device\<close>

text \<open>
  The CUDA runtime is an external library; the model is a mock that records every call.
  \<open>lastError\<close> is the code \<^verbatim>\<open>cudaPeekAtLastError\<close> reports (0 is
  \<^verbatim>\<open>cudaSuccess\<close>), \<open>freeBytes\<close> the memory still available, \<open>live\<close> the
  allocations not yet released with their sizes, \<open>dmem\<close> the contents of device memory
  by base pointer and offset. The four logs keep the calls in order: \<open>mallocs\<close> each
  request with the pointer it returned, \<open>frees\<close> each pointer passed to
  \<^verbatim>\<open>cudaFree\<close>, \<open>memcpys\<close> each host-to-device copy (destination, number of floats),
  \<open>executions\<close> the binding array of each \<^verbatim>\<open>execute\<close> call.
\<close>

record device =
  lastError :: nat
  freeBytes :: nat
  nextPtr :: devptr
  live :: "(devptr \<times> nat) list"
  dmem :: "devptr \<Rightarrow> nat \<Rightarrow> float"
  mallocs :: "(nat \<times> devptr option) list"
  frees :: "devptr list"
  memcpys :: "(devptr \<times> nat) list"
  executions :: "devptr list list"

definition cudaMalloc :: "device \<Rightarrow> nat \<Rightarrow> devptr option \<times> device" where
  "cudaMalloc dev n =
     (if n \<le> freeBytes dev
      then (Some (nextPtr dev),
            dev\<lparr>freeBytes := freeBytes dev - n,
                nextPtr := nextPtr dev + max n 1,
                live := (nextPtr dev, n) # live dev,
                mallocs := mallocs dev @ [(n, Some (nextPtr dev))]\<rparr>)
      else (None, dev\<lparr>lastError := 2, mallocs := mallocs dev @ [(n, None)]\<rparr>))"

definition cudaFree :: "device \<Rightarrow> devptr \<Rightarrow> device" where
  "cudaFree dev p =
     (let dev' = dev\<lparr>frees := frees dev @ [p]\<rparr>
      in if p = 0 then dev'
         else (case map_of (live dev) p of
                 Some n \<Rightarrow> dev'\<lparr>freeBytes := freeBytes dev + n,
                                live := filter (\<lambda>e. fst e \<noteq> p) (live dev)\<rparr>
               | None \<Rightarrow> dev'\<lparr>lastError := 1\<rparr>))"

text \<open>
  \<^verbatim>\<open>cudaMemcpy(dst, src, count * sizeof(float), cudaMemcpyHostToDevice)\<close>: \<open>count\<close>
  floats go from the host memory \<open>src\<close> to the device memory at \<open>dst\<close>. The source
  ignores the status the call returns.
\<close>

definition cudaMemcpy :: "device \<Rightarrow> devptr \<Rightarrow> (nat \<Rightarrow> float) \<Rightarrow> nat \<Rightarrow> device" where
  "cudaMemcpy dev dst src count =
     dev\<lparr>dmem := (dmem dev)(dst := (\<lambda>i. if i < count then src i else dmem dev dst i)),
         memcpys := memcpys dev @ [(dst, count)]\<rparr>"

text \<open>
  Modelled from the spec: \<^verbatim>\<open>op::cudaCheck\<close>, which is declared outside the two source
  files. "Any platform-reported error here is surfaced as a fatal DeviceError (checked
  immediately after the free calls, not per-call)".
\<close>

definition cudaCheck :: "device \<Rightarrow> failure option" where
  "cudaCheck dev = (if lastError dev \<noteq> 0 then Some (DeviceError (lastError dev)) else None)"

subsection \<open>The TensorRT engine\<close>

text \<open>
  TensorRT is an external library. An engine has a table of named bindings
  (\<^verbatim>\<open>getNbBindings\<close>, and \<^verbatim>\<open>getBindingIndex\<close>, which answers -1 for a name that
  is not in the table) and a computation: \<open>run\<close> is what \<^verbatim>\<open>execute\<close> does to device
  memory given the binding pointers, with the success flag it returns.
\<close>

record engine =
  bindingNames :: "string list"
  run :: "devptr list \<Rightarrow> (devptr \<Rightarrow> nat \<Rightarrow> float) \<Rightarrow> bool \<times> (devptr \<Rightarrow> nat \<Rightarrow> float)"

definition getNbBindings :: "engine \<Rightarrow> int" where
  "getNbBindings e = int (length (bindingNames e))"

fun index_from :: "int \<Rightarrow> string \<Rightarrow> string list \<Rightarrow> int" where
  "index_from i name [] = - 1"
| "index_from i name (b # bs) = (if b = name then i else index_from (i + 1) name bs)"

definition getBindingIndex :: "engine \<Rightarrow> string \<Rightarrow> int" where
  "getBindingIndex e name = index_from 0 name (bindingNames e)"

subsection \<open>The file system and the plan file\<close>

text \<open>
  What \<^verbatim>\<open>std::ifstream\<close> shows of a file that can be opened: \<open>fsize\<close> is the position
  \<^verbatim>\<open>tellg\<close> reports after opening at the end, \<open>fdeliver\<close> the bytes the stream hands
  out when read from the beginning. A read of \<open>n\<close> bytes is short when fewer than \<open>n\<close>
  can be delivered (the file was truncated meanwhile, or the medium fails). A path that
  cannot be opened has no entry.
\<close>

record plan_file =
  fsize :: nat
  fdeliver :: "char list"

text \<open>
  The environment of a call: the file system, and TensorRT's
  \<^verbatim>\<open>deserializeCudaEngine\<close>, which answers \<^verbatim>\<open>nullptr\<close> for bytes that are no plan.
\<close>

record env =
  files :: "string \<Rightarrow> plan_file option"
  deserializeCudaEngine :: "char list \<Rightarrow> engine option"

text \<open>
  Modelled from the spec: \<^verbatim>\<open>op::existFile\<close>, which is declared outside the two source
  files. "Construction validates the plan file's existence".
\<close>

definition existFile :: "env \<Rightarrow> string \<Rightarrow> bool" where
  "existFile ev path = (files ev path \<noteq> None)"

text \<open>
  \<^verbatim>\<open>tellg\<close> on a stream whose opening failed answers -1; \<^verbatim>\<open>read\<close> on it fails.
\<close>

definition tellg :: "plan_file option \<Rightarrow> int" where
  "tellg modelFile = (case modelFile of None \<Rightarrow> - 1 | Some f \<Rightarrow> int (fsize f))"

definition read :: "plan_file option \<Rightarrow> nat \<Rightarrow> char list option" where
  "read modelFile n =
     (case modelFile of
        None \<Rightarrow> None
      | Some f \<Rightarrow> if n \<le> length (fdeliver f) then Some (take n (fdeliver f)) else None)"

subsection \<open>Process-wide state\<close>

text \<open>
  The two globals of the file, \<^verbatim>\<open>sMutexNetRT\<close> and
  \<^verbatim>\<open>sGoogleLoggingInitializedRT\<close>, with two counters beside them: how often the
  mutex was acquired and how often \<^verbatim>\<open>google::InitGoogleLogging\<close> was called. The
  counters are what a stub of the logging subsystem would record. \<open>process_start\<close> is
  the state at program start, with the initialiser the source gives the flag.
\<close>

record process =
  sGoogleLoggingInitializedRT :: bool
  sMutexNetRT_acquired :: nat
  InitGoogleLogging_calls :: nat

definition process_start :: process where
  "process_start =
     \<lparr>sGoogleLoggingInitializedRT = True, sMutexNetRT_acquired = 0, InitGoogleLogging_calls = 0\<rparr>"

subsection \<open>The members of ImplNetRT\<close>

text \<open>
  \<^verbatim>\<open>caffe::Blob<float>\<close> as far as this file uses it: the shape given to its
  constructor and the device pointer given to \<^verbatim>\<open>set_gpu_data\<close>, which the blob then
  uses as its data without copying or owning it.
\<close>

record Blob =
  shape :: "cint list"
  gpu_data :: devptr

text \<open>
  \<open>contextP\<close> is the member \<^verbatim>\<open>context\<close>: an execution context is the engine it
  runs, and \<open>None\<close> is a pointer that is null or does not point to a context.
  \<open>buffers\<close> is the array \<^verbatim>\<open>void* buffers[NB_BINDINGS]\<close> read as C++ indexes it, by
  offset from its base: offsets 0 and 1 are the array, and the source applies no range
  check to an index, so any other offset names a cell next to the array. \<open>runtime\<close>
  tells whether \<^verbatim>\<open>createInferRuntime\<close> has run.
\<close>

record ImplNetRT =
  mGpuId :: int
  mRTPlan :: string
  mLastBlobName :: string
  mNetInputSize4D :: "cint list"
  runtime :: bool
  nvengine :: "engine option"
  contextP :: "engine option"
  buffers :: "int \<Rightarrow> devptr"
  inputBlobIndex :: int
  outputBlobIndex :: int
  spOutputBlob :: "Blob option"

subsection \<open>Constructor and destructor\<close>

text \<open>
  The constructor initialises the three \<^verbatim>\<open>const\<close> members; the vector and the
  shared pointer start empty; the members under "Init with thread" have no initialiser
  and keep whatever the storage \<open>raw\<close> of the new object holds. A constructor that
  throws produces no object.
\<close>

definition ImplNetRT_ctor ::
  "env \<Rightarrow> process \<Rightarrow> ImplNetRT \<Rightarrow> string \<Rightarrow> int \<Rightarrow> bool \<Rightarrow> string \<Rightarrow> (failure + ImplNetRT) \<times> process"
where
  "ImplNetRT_ctor ev pr raw RTPlan gpuId enableGoogleLogging lastBlobName =
     (let this = raw\<lparr>mGpuId := gpuId, mRTPlan := RTPlan, mLastBlobName := lastBlobName,
                     mNetInputSize4D := [], spOutputBlob := None\<rparr>
      in if \<not> existFile ev (mRTPlan this)
         then (Inl (error (''TensorRT plan not found: '' @ RTPlan)), pr)
         else if enableGoogleLogging \<and> \<not> sGoogleLoggingInitializedRT pr
         then
           (let pr1 = pr\<lparr>sMutexNetRT_acquired := sMutexNetRT_acquired pr + 1\<rparr>
            in if enableGoogleLogging \<and> \<not> sGoogleLoggingInitializedRT pr1
               then (Inr this,
                     pr1\<lparr>InitGoogleLogging_calls := InitGoogleLogging_calls pr1 + 1,
                         sGoogleLoggingInitializedRT := True\<rparr>)
               else (Inr this, pr1))
         else (Inr this, pr))"

definition ImplNetRT_dtor :: "ImplNetRT \<Rightarrow> device \<Rightarrow> failure option \<times> device" where
  "ImplNetRT_dtor this dev =
     (let dev1 = cudaFree dev (buffers this (inputBlobIndex this));
          dev2 = cudaFree dev1 (buffers this (outputBlobIndex this))
      in (cudaCheck dev2, dev2))"

subsection \<open>initializationOnThread\<close>

text \<open>
  \<^verbatim>\<open>cudaMalloc(&buffers[i], n)\<close>: the pointer of a successful allocation is stored
  in cell \<open>i\<close>; a failed one leaves the cell as it was. The source ignores the status.
  The struct declares \<^verbatim>\<open>context\<close> directly before \<^verbatim>\<open>buffers\<close>, so the cell at
  offset -1 is the member \<^verbatim>\<open>context\<close>: a store there replaces the execution context
  by a device address, which is no context. Offset -1 is the only one outside the array
  that \<^verbatim>\<open>getBindingIndex\<close> can give an engine that passed the binding-count check.
\<close>

definition store_buffer :: "ImplNetRT \<Rightarrow> int \<Rightarrow> devptr option \<Rightarrow> ImplNetRT" where
  "store_buffer this i p =
     (case p of
        None \<Rightarrow> this
      | Some q \<Rightarrow>
         (if i = - 1 then this\<lparr>buffers := (buffers this)(i := q), contextP := None\<rparr>
          else this\<lparr>buffers := (buffers this)(i := q)\<rparr>))"

text \<open>
  The stream is opened at the end and asked for its position; \<^verbatim>\<open>std::vector<char>
  modelBuffer(modelSize)\<close> converts the size to unsigned, so a negative size asks for
  more than \<^verbatim>\<open>max_size()\<close> elements and the constructor throws before anything is
  read.
\<close>

definition initializationOnThread ::
  "env \<Rightarrow> ImplNetRT \<Rightarrow> device \<Rightarrow> failure option \<times> ImplNetRT \<times> device"
where
  "initializationOnThread ev this dev =
     (let modelFile = files ev (mRTPlan this);
          modelSize = tellg modelFile
      in if modelSize < 0 then (Some StdLengthError, this, dev)
         else
          (case read modelFile (nat modelSize) of
             None \<Rightarrow> (Some (error ''Could not load tensorrt engine.''), this, dev)
           | Some modelBuffer \<Rightarrow>
              (let this1 = this\<lparr>runtime := True,
                                 nvengine := deserializeCudaEngine ev modelBuffer\<rparr>
               in case nvengine this1 of
                    None \<Rightarrow> (Some BadPointerCall, this1, dev)
                  | Some engine \<Rightarrow>
                     (let this2 = this1\<lparr>contextP := Some engine\<rparr>
                      in if getNbBindings engine \<noteq> NB_BINDINGS
                         then (Some (error
                                 ''The engine should have 2 binding (One input and one output)''),
                               this2, dev)
                         else
                          (let this3 = this2\<lparr>inputBlobIndex :=
                                               getBindingIndex engine INPUT_BLOB_NAME\<rparr>;
                               this4 = this3\<lparr>outputBlobIndex :=
                                               getBindingIndex engine OUTPUT_BLOB_NAME\<rparr>;
                               m1 = cudaMalloc dev input_bytes;
                               this5 = store_buffer this4 (inputBlobIndex this4) (fst m1);
                               m2 = cudaMalloc (snd m1) output_bytes;
                               this6 = store_buffer this5 (outputBlobIndex this5) (fst m2);
                               this7 = this6\<lparr>spOutputBlob := Some
                                         \<lparr>shape = [1, OUTPUT_HEATMAP_NB_CHANNELS,
                                                   OUTPUT_HEATMAP_HEIGHT, OUTPUT_HEATMAP_WIDTH],
                                          gpu_data = buffers this6 (outputBlobIndex this6)\<rparr>\<rparr>
                           in (cudaCheck (snd m2), this7, snd m2))))))"

subsection \<open>forwardPass\<close>

text \<open>
  \<^verbatim>\<open>std::accumulate(size.begin(), size.end(), 1, std::multiplies<int>())\<close>: the
  product is taken in \<^verbatim>\<open>int\<close>.
\<close>

definition accumulate_multiplies :: "cint list \<Rightarrow> cint" where
  "accumulate_multiplies size4D = foldl (\<lambda>acc d. acc * d) 1 size4D"

text \<open>
  Modelled from the spec: \<^verbatim>\<open>op::vectorsAreEqual\<close>, which is declared outside the two
  source files. "If the tensor's shape differs from the previously recorded shape, the
  recorded shape is updated".
\<close>

definition vectorsAreEqual :: "cint list \<Rightarrow> cint list \<Rightarrow> bool" where
  "vectorsAreEqual v w = (v = w)"

definition hardcodedSize :: string where
  "hardcodedSize =
     ''[total size = '' @ to_string (1 * 3 * INPUT_IMAGE_WIDTH * INPUT_IMAGE_HEIGHT) @ '']''"

definition inputSizeDetail :: "cint \<Rightarrow> cint list \<Rightarrow> string" where
  "inputSizeDetail totalSize size4D =
     ''total size = '' @ to_string totalSize
       @ ''[batch size = '' @ to_string (size4D ! 0)
       @ '', channel (RGB) = '' @ to_string (size4D ! 1)
       @ '', height = '' @ to_string (size4D ! 2)
       @ '', width = '' @ to_string (size4D ! 3) @ '']''"

text \<open>
  The second check is \<^verbatim>\<open>getNumberDimensions() != 4 || getSize(1) != 3\<close>: the right
  operand is evaluated only for four dimensions. \<^verbatim>\<open>execute(1, buffers)\<close> is handed
  the array itself, that is its two cells.
\<close>

definition forwardPass ::
  "ImplNetRT \<Rightarrow> device \<Rightarrow> Array \<Rightarrow> failure option \<times> ImplNetRT \<times> device"
where
  "forwardPass this dev inputData =
     (if empty inputData
      then (Some (error ''The Array inputData cannot be empty.''), this, dev)
      else if (if getNumberDimensions inputData \<noteq> 4 then True else mSize inputData ! 1 \<noteq> 3)
      then (Some (error
              ''The Array inputData must have 4 dimensions: [batch size, 3 (RGB), height, width].''),
            this, dev)
      else
       (let size4D = mSize inputData;
            totalSize = accumulate_multiplies size4D
        in if totalSize \<noteq> 1 * INPUT_IMAGE_NBR_CHANNELS * INPUT_IMAGE_WIDTH * INPUT_IMAGE_HEIGHT
           then (Some (error (''Dimension conflict '' @ hardcodedSize @ '' vs ''
                                @ inputSizeDetail totalSize size4D)),
                 this, dev)
           else
            (let this1 = (if \<not> vectorsAreEqual (mNetInputSize4D this) (mSize inputData)
                          then this\<lparr>mNetInputSize4D := mSize inputData\<rparr> else this);
                 dev1 = cudaMemcpy dev (buffers this1 (inputBlobIndex this1)) (mData inputData)
                          (getVolume inputData)
             in case contextP this1 of
                  None \<Rightarrow> (Some BadPointerCall, this1, dev1)
                | Some c \<Rightarrow>
                   (let bindings = [buffers this1 0, buffers this1 1];
                        r = run c bindings (dmem dev1);
                        dev2 = dev1\<lparr>dmem := snd r, executions := executions dev1 @ [bindings]\<rparr>
                    in if \<not> fst r
                       then (Some (error ''Inference execution failed''), this1, dev2)
                       else (None, this1, dev2)))))"

subsection \<open>getOutputBlob\<close>







subsection \<open>Substrings\<close>

text \<open>Whether a message contains a given text.\<close>

fun starts_with :: "string \<Rightarrow> string \<Rightarrow> bool" where
  "starts_with s [] = True"
| "starts_with [] (p # ps) = False"
| "starts_with (c # cs) (p # ps) = (c = p \<and> starts_with cs ps)"

fun contains :: "string \<Rightarrow> string \<Rightarrow> bool" where
  "contains [] p = (p = [])"
| "contains (c # cs) p = (starts_with (c # cs) p \<or> contains cs p)"

subsection \<open>A concrete installation\<close>

text \<open>
  One file system with a four-byte plan at \<^verbatim>\<open>pose.plan\<close>, an engine whose binding
  names are a parameter and whose computation writes to its second binding the floats of
  its first, each with 1 added to its bit pattern, a device with two million bytes free,
  and the storage of a new object, whose uninitialised members hold arbitrary values.
  \<open>demo_image\<close> is a tensor of the fixed shape filled with the pattern 5.
\<close>

definition zeros :: "nat \<Rightarrow> float" where
  "zeros i = 0"

definition demo_tensor :: "cint list \<Rightarrow> Array" where
  "demo_tensor dims = \<lparr>mSize = dims, mData = zeros\<rparr>"



definition demo_run ::
  "devptr list \<Rightarrow> (devptr \<Rightarrow> nat \<Rightarrow> float) \<Rightarrow> bool \<times> (devptr \<Rightarrow> nat \<Rightarrow> float)"
where
  "demo_run bindings mem = (True, mem(bindings ! 1 := (\<lambda>i. mem (bindings ! 0) i + 1)))"

definition demo_engine :: "string list \<Rightarrow> engine" where
  "demo_engine names = \<lparr>bindingNames = names, run = demo_run\<rparr>"

definition demo_files :: "string \<Rightarrow> plan_file option" where
  "demo_files path =
     (if path = ''pose.plan'' then Some \<lparr>fsize = 4, fdeliver = ''PLAN''\<rparr> else None)"

definition demo_deserialize :: "string list \<Rightarrow> char list \<Rightarrow> engine option" where
  "demo_deserialize names bytes = (if bytes = ''PLAN'' then Some (demo_engine names) else None)"

definition demo_env :: "string list \<Rightarrow> env" where
  "demo_env names = \<lparr>files = demo_files, deserializeCudaEngine = demo_deserialize names\<rparr>"

definition demo_buffers :: "int \<Rightarrow> devptr" where
  "demo_buffers i = 7"

definition demo_raw :: ImplNetRT where
  "demo_raw =
     \<lparr>mGpuId = 0, mRTPlan = [], mLastBlobName = [], mNetInputSize4D = [], runtime = False,
      nvengine = None, contextP = None, buffers = demo_buffers, inputBlobIndex = 5,
      outputBlobIndex = 9, spOutputBlob = None\<rparr>"

definition demo_dmem :: "devptr \<Rightarrow> nat \<Rightarrow> float" where
  "demo_dmem p = zeros"

definition demo_device :: device where
  "demo_device =
     \<lparr>lastError = 0, freeBytes = 2000000, nextPtr = 4096, live = [], dmem = demo_dmem,
      mallocs = [], frees = [], memcpys = [], executions = []\<rparr>"

text \<open>The object the constructor makes of \<open>demo_raw\<close> for the plan \<^verbatim>\<open>pose.plan\<close>.\<close>

definition demo_net :: "string \<Rightarrow> ImplNetRT" where
  "demo_net lastBlobName =
     demo_raw\<lparr>mGpuId := 0, mRTPlan := ''pose.plan'', mLastBlobName := lastBlobName,
              mNetInputSize4D := [], spOutputBlob := None\<rparr>"

subsection \<open>Constructing several instances\<close>

text \<open>
  Any number of constructions, one after the other, each with logging enabled; an entry
  gives the object's storage, the plan path, the GPU id and the last blob name. A
  construction that throws, for want of a plan at the path, leaves the process as it was,
  and the next one goes ahead.
\<close>

fun construct_with_logging ::
  "env \<Rightarrow> process \<Rightarrow> (ImplNetRT \<times> string \<times> int \<times> string) list \<Rightarrow> process"
where
  "construct_with_logging ev pr [] = pr"
| "construct_with_logging ev pr ((raw, RTPlan, gpuId, lastBlobName) # nets) =
     construct_with_logging ev
       (snd (ImplNetRT_ctor ev pr raw RTPlan gpuId True lastBlobName)) nets"





section \<open>Properties\<close>

subsection \<open>forwardPass: the three checks\<close>

lemma fixed_volume:
  "INPUT_IMAGE_NBR_CHANNELS * INPUT_IMAGE_WIDTH * INPUT_IMAGE_HEIGHT = (230400 :: cint)"
  by (simp add: INPUT_IMAGE_NBR_CHANNELS_def INPUT_IMAGE_WIDTH_def INPUT_IMAGE_HEIGHT_def)

lemma to_string_230400: "to_string 230400 = ''230400''"
  by (simp add: to_string_def to_string_nat.simps digit_char_def)

lemma hardcodedSize_eq: "hardcodedSize = ''[total size = 230400]''"
  by (simp add: hardcodedSize_def INPUT_IMAGE_WIDTH_def INPUT_IMAGE_HEIGHT_def to_string_230400)

text \<open>
  Each failed check raises its own message and leaves the object and the device as they
  were: no copy to the device, no execution.
\<close>

lemma forwardPass_empty:
  "empty a \<Longrightarrow>
   forwardPass this dev a = (Some (OpError ''The Array inputData cannot be empty.''), this, dev)"
  by (simp add: forwardPass_def error_def)

lemma forwardPass_dimensions:
  "\<not> empty a \<Longrightarrow> getNumberDimensions a \<noteq> 4 \<or> mSize a ! 1 \<noteq> 3 \<Longrightarrow>
   forwardPass this dev a =
     (Some (OpError
        ''The Array inputData must have 4 dimensions: [batch size, 3 (RGB), height, width].''),
      this, dev)"
  by (auto simp add: forwardPass_def error_def)

lemma forwardPass_volume:
  "\<not> empty a \<Longrightarrow> getNumberDimensions a = 4 \<Longrightarrow> mSize a ! 1 = 3 \<Longrightarrow>
   accumulate_multiplies (mSize a) \<noteq> 230400 \<Longrightarrow>
   forwardPass this dev a =
     (Some (OpError (''Dimension conflict [total size = 230400] vs ''
                      @ inputSizeDetail (accumulate_multiplies (mSize a)) (mSize a))),
      this, dev)"
  by (simp add: forwardPass_def error_def fixed_volume hardcodedSize_eq Let_def)

text \<open>
  A tensor that passes the three checks is copied to the input buffer, all
  \<open>getVolume\<close> floats of it, and executed once; the call fails only if the execution
  reports failure.
\<close>

lemma forwardPass_accepted:
  assumes "\<not> empty a" "getNumberDimensions a = 4" "mSize a ! 1 = 3"
      and "accumulate_multiplies (mSize a) = 230400" "contextP this = Some c"
  shows "memcpys (snd (snd (forwardPass this dev a)))
           = memcpys dev @ [(buffers this (inputBlobIndex this), getVolume a)]"
    and "executions (snd (snd (forwardPass this dev a)))
           = executions dev @ [[buffers this 0, buffers this 1]]"
    and "fst (forwardPass this dev a)
           = (if fst (run c [buffers this 0, buffers this 1]
                       (dmem (cudaMemcpy dev (buffers this (inputBlobIndex this)) (mData a)
                                (getVolume a))))
              then None else Some (OpError ''Inference execution failed''))"
  using assms
  by (simp_all add: forwardPass_def error_def fixed_volume Let_def cudaMemcpy_def
        vectorsAreEqual_def cong: if_cong)

text \<open>
  The product taken in \<^verbatim>\<open>int\<close> is the product of the sizes reduced to 32 bits, so it
  is the element count whenever that count fits an \<^verbatim>\<open>int\<close>.
\<close>

lemma foldl_multiplies:
  "foldl (\<lambda>acc d. acc * d) a ds = a * (word_of_int (prod_list (map sint ds)) :: cint)"
  by (induction ds arbitrary: a) (simp_all add: mult.assoc)

lemma accumulate_multiplies_exact:
  assumes "- (2 ^ 31) \<le> prod_list (map sint ds)" "prod_list (map sint ds) < 2 ^ 31"
  shows "sint (accumulate_multiplies ds) = prod_list (map sint ds)"
proof -
  have "sint (word_of_int (prod_list (map sint ds)) :: cint) = prod_list (map sint ds)"
    using assms by (simp add: sint_sbintrunc' signed_take_bit_int_eq_self)
  then show ?thesis
    by (simp add: accumulate_multiplies_def foldl_multiplies)
qed

text \<open>
  So a tensor of the right form whose element count differs from 230400 is refused
  whenever the product of its sizes fits an \<^verbatim>\<open>int\<close>.
\<close>

lemma forwardPass_volume_in_range:
  assumes "\<not> empty a" "getNumberDimensions a = 4" "mSize a ! 1 = 3"
      and "getVolume a \<noteq> 230400"
      and "- (2 ^ 31) \<le> prod_list (map sint (mSize a))" "prod_list (map sint (mSize a)) < 2 ^ 31"
  shows "forwardPass this dev a =
     (Some (OpError (''Dimension conflict [total size = 230400] vs ''
                      @ inputSizeDetail (accumulate_multiplies (mSize a)) (mSize a))),
      this, dev)"
proof -
  have "accumulate_multiplies (mSize a) \<noteq> 230400"
  proof
    assume "accumulate_multiplies (mSize a) = 230400"
    then have "sint (accumulate_multiplies (mSize a)) = 230400"
      by simp
    with accumulate_multiplies_exact [OF assms(5,6)]
    have "prod_list (map sint (mSize a)) = 230400"
      by simp
    moreover have "mSize a \<noteq> []"
      using assms(2) by (auto simp add: getNumberDimensions_def)
    ultimately show False
      using assms(4) by (simp add: getVolume_def)
  qed
  with assms(1,2,3) show ?thesis
    by (rule forwardPass_volume)
qed

text \<open>
  C1. The claim: every tensor that is empty, or is not four-dimensional with channel size
  3, or whose element count differs from 230400, is refused with a validation error before
  any transfer or execution. The lemmas above show the refusals, in the order of the
  checks, wherever the product of the sizes fits an \<^verbatim>\<open>int\<close>. The code takes that
  product in \<^verbatim>\<open>int\<close>: a tensor of shape [1, 3, 1024, 4194379] has 12885132288
  elements, the \<^verbatim>\<open>int\<close> product wraps around to 230400, and on any object with an
  execution context and any device the tensor passes the check, is copied to the device
  with its full element count and is executed.
\<close>

theorem forwardPass_accepts_wrapped_volume:
  "getVolume \<lparr>mSize = [1, 3, 1024, 4194379], mData = d\<rparr> = 12885132288
   \<and> accumulate_multiplies [1, 3, 1024, 4194379] = 230400
   \<and> memcpys (snd (snd (forwardPass (this\<lparr>contextP := Some c\<rparr>) dev
                 \<lparr>mSize = [1, 3, 1024, 4194379], mData = d\<rparr>)))
       = memcpys dev @ [(buffers this (inputBlobIndex this), 12885132288)]
   \<and> executions (snd (snd (forwardPass (this\<lparr>contextP := Some c\<rparr>) dev
                 \<lparr>mSize = [1, 3, 1024, 4194379], mData = d\<rparr>)))
       = executions dev @ [[buffers this 0, buffers this 1]]
   \<and> fst (forwardPass (this\<lparr>contextP := Some c\<rparr>) dev
            \<lparr>mSize = [1, 3, 1024, 4194379], mData = d\<rparr>)
         \<in> {None, Some (OpError ''Inference execution failed'')}"
proof -
  let ?a = "\<lparr>mSize = [1, 3, 1024, 4194379], mData = d\<rparr>"
  have v: "getVolume ?a = 12885132288"
    by (simp add: getVolume_def)
  have t: "accumulate_multiplies (mSize ?a) = 230400"
    by (simp add: accumulate_multiplies_def)
  have e: "\<not> empty ?a"
    by (simp add: empty_def v)
  have d: "getNumberDimensions ?a = 4" "mSize ?a ! 1 = 3"
    by (simp_all add: getNumberDimensions_def)
  have c: "contextP (this\<lparr>contextP := Some c\<rparr>) = Some c"
    by simp
  show ?thesis
    using forwardPass_accepted [OF e d t c, of dev] v t by simp
qed

text \<open>
  C6, as amended. For every non-empty tensor of shape [b, 3, h, w] whose product of sizes,
  taken in \<^verbatim>\<open>int\<close>, differs from 230400, \<open>forwardPass\<close> fails with the message
  "Dimension conflict [total size = 230400] vs total size = T[batch size = b, channel
  (RGB) = 3, height = h, width = w]", where T is that product: the expected total and the
  actual batch, channel, height and width are all in it. Nothing else changes.
\<close>

theorem volume_mismatch_message:
  assumes "\<not> empty a" and "mSize a = [b, c, h, w]" and "c = 3"
      and "b * c * h * w \<noteq> 230400"
  shows "fst (forwardPass this dev a)
           = Some (OpError (''Dimension conflict [total size = 230400] vs total size = ''
                @ to_string (b * c * h * w)
                @ ''[batch size = '' @ to_string b
                @ '', channel (RGB) = '' @ to_string c
                @ '', height = '' @ to_string h
                @ '', width = '' @ to_string w @ '']''))
         \<and> snd (forwardPass this dev a) = (this, dev)"
proof -
  have t: "accumulate_multiplies (mSize a) = b * c * h * w"
    using assms(2) by (simp add: accumulate_multiplies_def)
  have "getNumberDimensions a = 4" "mSize a ! 1 = 3"
    using assms(2,3) by (simp_all add: getNumberDimensions_def)
  then show ?thesis
    using forwardPass_volume [of a this dev] assms t
    by (simp add: inputSizeDetail_def)
qed

lemma to_string_examples:
  "to_string 460800 = ''460800''" "to_string 2 = ''2''" "to_string 3 = ''3''"
  "to_string 320 = ''320''" "to_string 240 = ''240''"
  by (simp_all add: to_string_def to_string_nat.simps digit_char_def)

text \<open>The scenario of the spec: a batch of two.\<close>

theorem volume_mismatch_message_witness:
  "\<not> empty (demo_tensor [2, 3, 320, 240])
   \<and> mSize (demo_tensor [2, 3, 320, 240]) = [2, 3, 320, 240]
   \<and> (2 :: cint) * 3 * 320 * 240 \<noteq> 230400
   \<and> fst (forwardPass demo_raw demo_device (demo_tensor [2, 3, 320, 240]))
       = Some (OpError (''Dimension conflict [total size = 230400] vs total size = 460800''
                 @ ''[batch size = 2, channel (RGB) = 3, height = 320, width = 240]''))"
proof -
  have e: "\<not> empty (demo_tensor [2, 3, 320, 240])"
    by (simp add: empty_def getVolume_def demo_tensor_def)
  have m: "mSize (demo_tensor [2, 3, 320, 240]) = [2, 3, 320, 240]"
    by (simp add: demo_tensor_def)
  have n: "(2 :: cint) * 3 * 320 * 240 \<noteq> 230400"
    by simp
  show ?thesis
    using e m n volume_mismatch_message [OF e m refl n, of demo_raw demo_device]
    by (simp add: to_string_examples)
qed

text \<open>
  C6 as stated fails for a four-dimensional tensor with channel size 3 that has no
  element: its element count, 0, differs from 230400, but the first check refuses it, and
  that message names neither the expected total nor any dimension.
\<close>

theorem empty_tensor_message_counterexample:
  "getNumberDimensions (demo_tensor [0, 3, 320, 240]) = 4
   \<and> mSize (demo_tensor [0, 3, 320, 240]) ! 1 = 3
   \<and> getVolume (demo_tensor [0, 3, 320, 240]) \<noteq> 230400
   \<and> fst (forwardPass demo_raw demo_device (demo_tensor [0, 3, 320, 240]))
       = Some (OpError ''The Array inputData cannot be empty.'')
   \<and> \<not> contains ''The Array inputData cannot be empty.'' ''230400''"
  by (simp add: demo_tensor_def getNumberDimensions_def getVolume_def forwardPass_def empty_def
        error_def)

subsection \<open>The constructor and the logging flag\<close>

text \<open>Once the flag is set, a construction changes nothing in the process.\<close>

lemma ctor_flag_set:
  "sGoogleLoggingInitializedRT pr \<Longrightarrow>
   snd (ImplNetRT_ctor ev pr raw RTPlan gpuId enableGoogleLogging lastBlobName) = pr"
  by (simp add: ImplNetRT_ctor_def Let_def)

lemma construct_with_logging_flag_set:
  "sGoogleLoggingInitializedRT pr \<Longrightarrow> construct_with_logging ev pr nets = pr"
  by (induction ev pr nets rule: construct_with_logging.induct) (simp_all add: ctor_flag_set)

text \<open>
  With the flag clear, the first construction on an existing plan acquires the mutex,
  calls \<^verbatim>\<open>InitGoogleLogging\<close> and sets the flag, and the later ones do nothing more:
  the guarded block does set things up exactly once when it is started from a clear flag.
\<close>

lemma ctor_flag_clear:
  "\<not> sGoogleLoggingInitializedRT pr \<Longrightarrow> existFile ev RTPlan \<Longrightarrow>
   snd (ImplNetRT_ctor ev pr raw RTPlan gpuId True lastBlobName)
     = pr\<lparr>sMutexNetRT_acquired := sMutexNetRT_acquired pr + 1,
           InitGoogleLogging_calls := InitGoogleLogging_calls pr + 1,
           sGoogleLoggingInitializedRT := True\<rparr>"
  by (simp add: ImplNetRT_ctor_def Let_def)

lemma logging_once_from_clear_flag:
  assumes "\<not> sGoogleLoggingInitializedRT pr" "existFile ev RTPlan"
  shows "InitGoogleLogging_calls
           (construct_with_logging ev pr ((raw, RTPlan, gpuId, lastBlobName) # nets))
         = InitGoogleLogging_calls pr + 1"
  using assms by (simp add: ctor_flag_clear construct_with_logging_flag_set)

text \<open>
  C2. The claim: across any number of constructions with logging enabled, the setup is
  performed exactly once, the flag being false until the first of them. In the code the
  flag is initialised to true, so from program start no construction, however many there
  are, ever acquires the mutex or calls \<^verbatim>\<open>InitGoogleLogging\<close>: the setup is performed
  zero times.
\<close>

theorem logging_setup_never_performed:
  "sGoogleLoggingInitializedRT process_start
   \<and> InitGoogleLogging_calls (construct_with_logging ev process_start nets) = 0
   \<and> sMutexNetRT_acquired (construct_with_logging ev process_start nets) = 0"
proof -
  have "sGoogleLoggingInitializedRT process_start"
    by (simp add: process_start_def)
  then have "construct_with_logging ev process_start nets = process_start"
    by (rule construct_with_logging_flag_set)
  then show ?thesis
    by (simp add: process_start_def)
qed

subsection \<open>initializationOnThread: loading the plan and checking the bindings\<close>

lemma index_from_absent: "name \<notin> set bs \<Longrightarrow> index_from i name bs = - 1"
  by (induction bs arbitrary: i) auto


lemma byte_counts: "input_bytes = 921600" "output_bytes = 273600"
  by (simp_all add: input_bytes_def output_bytes_def sizeof_float_def
        INPUT_IMAGE_NBR_CHANNELS_def INPUT_IMAGE_HEIGHT_def INPUT_IMAGE_WIDTH_def
        OUTPUT_HEATMAP_NB_CHANNELS_def OUTPUT_HEATMAP_HEIGHT_def OUTPUT_HEATMAP_WIDTH_def)

text \<open>A plan file that opens and delivers all its bytes is read in full.\<close>

lemma plan_loaded:
  assumes "files ev (mRTPlan this) = Some f" and "fsize f \<le> length (fdeliver f)"
  shows "\<not> tellg (files ev (mRTPlan this)) < 0"
    and "read (files ev (mRTPlan this)) (nat (tellg (files ev (mRTPlan this))))
           = Some (take (fsize f) (fdeliver f))"
  using assms by (simp_all add: tellg_def read_def)

text \<open>
  C4. For every plan that is read in full and deserializes to an engine whose binding
  count is not 2, \<open>initializationOnThread\<close> fails with the binding-count error and leaves
  the device exactly as it was: no \<^verbatim>\<open>cudaMalloc\<close> call has been made.
\<close>

theorem binding_count_mismatch_no_allocation:
  assumes "files ev (mRTPlan this) = Some f"
      and "fsize f \<le> length (fdeliver f)"
      and "deserializeCudaEngine ev (take (fsize f) (fdeliver f)) = Some e"
      and "getNbBindings e \<noteq> 2"
  shows "fst (initializationOnThread ev this dev)
           = Some (OpError ''The engine should have 2 binding (One input and one output)'')
         \<and> snd (snd (initializationOnThread ev this dev)) = dev"
  using assms(3,4) plan_loaded [OF assms(1,2)]
  by (simp add: initializationOnThread_def error_def NB_BINDINGS_def Let_def)

text \<open>An engine with three bindings.\<close>

theorem binding_count_mismatch_no_allocation_witness:
  "files (demo_env [''image'', ''heatmaps'', ''pafs'']) (mRTPlan (demo_net ''net_output''))
     = Some \<lparr>fsize = 4, fdeliver = ''PLAN''\<rparr>
   \<and> getNbBindings (demo_engine [''image'', ''heatmaps'', ''pafs'']) \<noteq> 2
   \<and> fst (initializationOnThread (demo_env [''image'', ''heatmaps'', ''pafs''])
            (demo_net ''net_output'') demo_device)
       = Some (OpError ''The engine should have 2 binding (One input and one output)'')
   \<and> mallocs (snd (snd (initializationOnThread (demo_env [''image'', ''heatmaps'', ''pafs''])
            (demo_net ''net_output'') demo_device))) = []"
proof -
  let ?names = "[''image'', ''heatmaps'', ''pafs'']"
  let ?f = "\<lparr>fsize = 4, fdeliver = ''PLAN''\<rparr>"
  have f: "files (demo_env ?names) (mRTPlan (demo_net ''net_output'')) = Some ?f"
    by (simp add: demo_env_def demo_files_def demo_net_def)
  have l: "fsize ?f \<le> length (fdeliver ?f)"
    by simp
  have d: "deserializeCudaEngine (demo_env ?names) (take (fsize ?f) (fdeliver ?f))
             = Some (demo_engine ?names)"
    by (simp add: demo_env_def demo_deserialize_def)
  have n: "getNbBindings (demo_engine ?names) \<noteq> 2"
    by (simp add: getNbBindings_def demo_engine_def)
  show ?thesis
    using f n binding_count_mismatch_no_allocation [OF f l d n, of demo_device]
    by (simp add: demo_device_def)
qed

subsection \<open>initializationOnThread: a plan that cannot be read\<close>

text \<open>A read that delivers fewer bytes than the size found raises the plan-read error.\<close>
lemma short_read_raises_plan_error:
  assumes "files ev (mRTPlan this) = Some f" and "length (fdeliver f) < fsize f"
  shows "initializationOnThread ev this dev
           = (Some (OpError ''Could not load tensorrt engine.''), this, dev)"
  using assms by (simp add: initializationOnThread_def tellg_def read_def error_def)

text \<open>
  C7. The claim: the plan is opened, sized by seeking to the end, rewound and read in
  full, and if the read is short or the file cannot be opened, initialization fails with a
  plan-read error. The short read does (lemma above). A file that cannot be opened does
  not get that far: \<^verbatim>\<open>tellg\<close> answers -1, the buffer is constructed with that size,
  and the constructor's exception leaves \<open>initializationOnThread\<close> before the read and
  its check, whatever else the environment holds.
\<close>

theorem unopenable_plan_raises_length_error:
  "initializationOnThread (ev\<lparr>files := (files ev)(mRTPlan this := None)\<rparr>) this dev
     = (Some StdLengthError, this, dev)"
  by (simp add: initializationOnThread_def tellg_def)

subsection \<open>getOutputBlob\<close>



subsection \<open>Construction and destruction\<close>
lemma ctor_demo:
  "fst (ImplNetRT_ctor (demo_env names) process_start demo_raw ''pose.plan'' 0 True lastBlobName)
     = Inr (demo_net lastBlobName)"
  by (simp add: ImplNetRT_ctor_def demo_net_def existFile_def demo_env_def demo_files_def
        process_start_def Let_def)

text \<open>
  The constructor leaves the buffer cells and the two indices as the storage had them; the
  destructor passes two of those cells to \<^verbatim>\<open>cudaFree\<close>, whatever state the object is
  in, and never allocates.
\<close>

lemma ctor_keeps_raw_members:
  assumes "fst (ImplNetRT_ctor ev pr raw RTPlan gpuId enableGoogleLogging lastBlobName) = Inr this"
  shows "buffers this = buffers raw" "inputBlobIndex this = inputBlobIndex raw"
    "outputBlobIndex this = outputBlobIndex raw" "mLastBlobName this = lastBlobName"
    "mRTPlan this = RTPlan"
  using assms by (auto simp add: ImplNetRT_ctor_def Let_def split: if_splits)

lemma dtor_calls:
  "frees (snd (ImplNetRT_dtor this dev))
     = frees dev @ [buffers this (inputBlobIndex this), buffers this (outputBlobIndex this)]"
  "mallocs (snd (ImplNetRT_dtor this dev)) = mallocs dev"
  by (simp_all add: ImplNetRT_dtor_def cudaFree_def Let_def split: option.splits)

text \<open>
  C5. The claim: destroying an instance whose initialization never ran, or failed before
  the allocations, releases only buffers that were allocated, with as many releases as
  allocations. The code: an instance is constructed on the concrete installation and
  destroyed at once. No allocation was ever made, the destructor calls \<^verbatim>\<open>cudaFree\<close>
  twice, on the value 7 that the uninitialised array happened to hold, and the device
  reports an invalid pointer.
\<close>

theorem destructor_frees_without_allocation:
  "fst (ImplNetRT_ctor (demo_env [''image'', ''net_output'']) process_start demo_raw
         ''pose.plan'' 0 True ''net_output'') = Inr (demo_net ''net_output'')
   \<and> mallocs demo_device = []
   \<and> mallocs (snd (ImplNetRT_dtor (demo_net ''net_output'') demo_device)) = []
   \<and> frees (snd (ImplNetRT_dtor (demo_net ''net_output'') demo_device)) = [7, 7]
   \<and> fst (ImplNetRT_dtor (demo_net ''net_output'') demo_device) = Some (DeviceError 1)"
  by (simp add: ctor_demo dtor_calls)
    (simp add: ImplNetRT_dtor_def cudaFree_def cudaCheck_def demo_net_def demo_raw_def
      demo_device_def demo_buffers_def Let_def)

subsection \<open>initializationOnThread: resolving the slots\<close>

text \<open>
  Past the binding-count check the two indices are the engine's answers for the two fixed
  names, and the only failure left is the device check at the end.
\<close>
lemma init_resolves_fixed_names:
  assumes "files ev (mRTPlan this) = Some f" and "fsize f \<le> length (fdeliver f)"
      and "deserializeCudaEngine ev (take (fsize f) (fdeliver f)) = Some e"
      and "getNbBindings e = 2"
  shows "inputBlobIndex (fst (snd (initializationOnThread ev this dev)))
           = getBindingIndex e ''image''"
    and "outputBlobIndex (fst (snd (initializationOnThread ev this dev)))
           = getBindingIndex e ''net_output''"
    and "fst (initializationOnThread ev this dev)
           = cudaCheck (snd (snd (initializationOnThread ev this dev)))"
  using assms(3,4) plan_loaded [OF assms(1,2)]
  by (simp_all add: initializationOnThread_def NB_BINDINGS_def Let_def store_buffer_def
        INPUT_BLOB_NAME_def OUTPUT_BLOB_NAME_def split: option.splits)

text \<open>
  C3, as amended. The name passed at construction is stored in \<open>mLastBlobName\<close> and
  plays no part in initialization: for every constructed Net whose plan loads with two
  bindings, the output slot index is the engine's binding index for the fixed name
  "net_output", and the input slot index the one for the fixed name "image", whatever
  \<open>lastBlobName\<close> was supplied.
\<close>

theorem slots_resolved_by_fixed_names:
  assumes "fst (ImplNetRT_ctor ev0 pr raw RTPlan gpuId enableGoogleLogging lastBlobName) = Inr this"
      and "files ev RTPlan = Some f" and "fsize f \<le> length (fdeliver f)"
      and "deserializeCudaEngine ev (take (fsize f) (fdeliver f)) = Some e"
      and "getNbBindings e = 2"
  shows "mLastBlobName this = lastBlobName
         \<and> outputBlobIndex (fst (snd (initializationOnThread ev this dev)))
             = getBindingIndex e ''net_output''
         \<and> inputBlobIndex (fst (snd (initializationOnThread ev this dev)))
             = getBindingIndex e ''image''"
proof -
  have p: "mRTPlan this = RTPlan" and n: "mLastBlobName this = lastBlobName"
    using ctor_keeps_raw_members [OF assms(1)] by simp_all
  have f: "files ev (mRTPlan this) = Some f"
    using assms(2) p by simp
  show ?thesis
    using n init_resolves_fixed_names(1,2) [OF f assms(3,4,5), of dev] by simp
qed

text \<open>The plan of the concrete installation.\<close>

lemma demo_plan:
  "files (demo_env names) ''pose.plan'' = Some \<lparr>fsize = 4, fdeliver = ''PLAN''\<rparr>"
  "fsize \<lparr>fsize = 4, fdeliver = ''PLAN''\<rparr> \<le> length (fdeliver \<lparr>fsize = 4, fdeliver = ''PLAN''\<rparr>)"
  "deserializeCudaEngine (demo_env names)
     (take (fsize \<lparr>fsize = 4, fdeliver = ''PLAN''\<rparr>) (fdeliver \<lparr>fsize = 4, fdeliver = ''PLAN''\<rparr>))
     = Some (demo_engine names)"
  by (simp_all add: demo_env_def demo_files_def demo_deserialize_def)

lemma demo_two_bindings: "getNbBindings (demo_engine [a, b]) = 2"
  by (simp add: getNbBindings_def demo_engine_def)

text \<open>The default names on an engine that has them.\<close>

theorem slots_resolved_by_fixed_names_witness:
  "fst (ImplNetRT_ctor (demo_env [''image'', ''net_output'']) process_start demo_raw
         ''pose.plan'' 0 True ''net_output'') = Inr (demo_net ''net_output'')
   \<and> getNbBindings (demo_engine [''image'', ''net_output'']) = 2
   \<and> outputBlobIndex (fst (snd (initializationOnThread (demo_env [''image'', ''net_output''])
        (demo_net ''net_output'') demo_device))) = 1
   \<and> inputBlobIndex (fst (snd (initializationOnThread (demo_env [''image'', ''net_output''])
        (demo_net ''net_output'') demo_device))) = 0"
proof -
  let ?names = "[''image'', ''net_output'']"
  have c: "fst (ImplNetRT_ctor (demo_env ?names) process_start demo_raw ''pose.plan'' 0 True
                  ''net_output'') = Inr (demo_net ''net_output'')"
    by (rule ctor_demo)
  have b: "getNbBindings (demo_engine ?names) = 2"
    by (rule demo_two_bindings)
  show ?thesis
    using c b slots_resolved_by_fixed_names [OF c demo_plan b, of demo_device]
    by (simp add: getBindingIndex_def demo_engine_def)
qed

text \<open>
  C3 as stated fails: a Net constructed with the last blob name "heatmaps" on an engine
  whose bindings are "image" and "heatmaps" initializes without error, and its output slot
  index is -1, the answer for "net_output", not 1, the engine's index for "heatmaps".
\<close>

theorem lastBlobName_not_used_counterexample:
  "fst (ImplNetRT_ctor (demo_env [''image'', ''heatmaps'']) process_start demo_raw
         ''pose.plan'' 0 True ''heatmaps'') = Inr (demo_net ''heatmaps'')
   \<and> mLastBlobName (demo_net ''heatmaps'') = ''heatmaps''
   \<and> fst (initializationOnThread (demo_env [''image'', ''heatmaps'']) (demo_net ''heatmaps'')
            demo_device) = None
   \<and> outputBlobIndex (fst (snd (initializationOnThread (demo_env [''image'', ''heatmaps''])
        (demo_net ''heatmaps'') demo_device))) = - 1
   \<and> getBindingIndex (demo_engine [''image'', ''heatmaps'']) ''heatmaps'' = 1"
proof -
  have p: "files (demo_env [''image'', ''heatmaps'']) (mRTPlan (demo_net ''heatmaps''))
             = Some \<lparr>fsize = 4, fdeliver = ''PLAN''\<rparr>"
    by (simp add: demo_plan demo_net_def)
  note r = init_resolves_fixed_names [OF p demo_plan(2,3) demo_two_bindings, of demo_device]
  have "lastError (snd (snd (initializationOnThread (demo_env [''image'', ''heatmaps''])
          (demo_net ''heatmaps'') demo_device))) = 0"
    using demo_plan(3) [of "[''image'', ''heatmaps'']"] plan_loaded [OF p demo_plan(2)]
    by (simp add: initializationOnThread_def NB_BINDINGS_def Let_def demo_two_bindings
          cudaMalloc_def byte_counts demo_device_def)
  then show ?thesis
    using r by (simp add: ctor_demo cudaCheck_def getBindingIndex_def demo_engine_def demo_net_def)
qed


subsection \<open>The output handle\<close>

text \<open>What a successful initialization went through.\<close>

lemma init_success:
  assumes "initializationOnThread ev this dev = (None, this', dev')"
  obtains f e where "files ev (mRTPlan this) = Some f" "fsize f \<le> length (fdeliver f)"
    "deserializeCudaEngine ev (take (fsize f) (fdeliver f)) = Some e" "getNbBindings e = 2"
proof -
  from assms obtain f where f: "files ev (mRTPlan this) = Some f"
    by (cases "files ev (mRTPlan this)") (auto simp add: initializationOnThread_def tellg_def)
  from assms f have l: "fsize f \<le> length (fdeliver f)"
    by (auto simp add: initializationOnThread_def tellg_def read_def error_def split: if_splits)
  note p = plan_loaded [OF f l]
  from assms p obtain e where e: "deserializeCudaEngine ev (take (fsize f) (fdeliver f)) = Some e"
    by (cases "deserializeCudaEngine ev (take (fsize f) (fdeliver f))")
       (auto simp add: initializationOnThread_def Let_def)
  from assms p e have "getNbBindings e = 2"
    by (auto simp add: initializationOnThread_def Let_def NB_BINDINGS_def error_def
          split: if_splits)
  with f l e show thesis ..
qed

text \<open>What \<open>initializationOnThread\<close> does once the plan has loaded with two bindings.\<close>

lemma init_two_bindings:
  assumes "files ev (mRTPlan this) = Some f" and "fsize f \<le> length (fdeliver f)"
      and "deserializeCudaEngine ev (take (fsize f) (fdeliver f)) = Some e"
      and "getNbBindings e = 2"
  shows "initializationOnThread ev this dev =
    (let this4 = this\<lparr>runtime := True, nvengine := Some e, contextP := Some e,
                       inputBlobIndex := getBindingIndex e ''image'',
                       outputBlobIndex := getBindingIndex e ''net_output''\<rparr>;
         m1 = cudaMalloc dev 921600;
         this5 = store_buffer this4 (inputBlobIndex this4) (fst m1);
         m2 = cudaMalloc (snd m1) 273600;
         this6 = store_buffer this5 (outputBlobIndex this5) (fst m2)
     in (cudaCheck (snd m2),
         this6\<lparr>spOutputBlob := Some \<lparr>shape = [1, 57, 40, 30],
                                     gpu_data = buffers this6 (outputBlobIndex this6)\<rparr>\<rparr>,
         snd m2))"
  using assms(3,4) plan_loaded [OF assms(1,2)]
  by (simp add: initializationOnThread_def Let_def NB_BINDINGS_def byte_counts
        INPUT_BLOB_NAME_def OUTPUT_BLOB_NAME_def
        OUTPUT_HEATMAP_NB_CHANNELS_def OUTPUT_HEATMAP_HEIGHT_def OUTPUT_HEATMAP_WIDTH_def)




lemma init_success_unresolved:
  assumes "initializationOnThread ev this dev = (None, this', dev')"
      and "inputBlobIndex this' = - 1 \<or> outputBlobIndex this' = - 1"
  shows "contextP this' = None"
    and "fst (forwardPass this' dev' a) \<noteq> None"
proof -
  from assms(1) obtain f e where f: "files ev (mRTPlan this) = Some f"
    and l: "fsize f \<le> length (fdeliver f)"
    and e: "deserializeCudaEngine ev (take (fsize f) (fdeliver f)) = Some e"
    and n: "getNbBindings e = 2"
    by (rule init_success)
  from assms [unfolded init_two_bindings [OF f l e n]]
  show c: "contextP this' = None"
    by (auto simp add: Let_def cudaMalloc_def cudaCheck_def store_buffer_def
          split: if_splits)
  then show "fst (forwardPass this' dev' a) \<noteq> None"
    by (simp add: forwardPass_def Let_def)
qed










subsection \<open>Slot indices are not validated\<close>

text \<open>
  C10. For every plan that loads with exactly two bindings of which none is named "image",
  or none "net_output": the only failure \<open>initializationOnThread\<close> can still report is
  the device check at its end; the index of a name that is not found is -1; both
  allocations are requested all the same; and where the device has room for them, the
  cell at offset -1, which is outside the two-cell array, holds one of the two pointers
  just allocated, and with no device error pending the initialization succeeds.
\<close>
theorem unresolved_slot_index_used_unchecked:
  assumes "files ev (mRTPlan this) = Some f" and "fsize f \<le> length (fdeliver f)"
      and "deserializeCudaEngine ev (take (fsize f) (fdeliver f)) = Some e"
      and "length (bindingNames e) = 2"
      and "''image'' \<notin> set (bindingNames e) \<or> ''net_output'' \<notin> set (bindingNames e)"
  shows "fst (initializationOnThread ev this dev)
           = cudaCheck (snd (snd (initializationOnThread ev this dev)))
         \<and> (''image'' \<notin> set (bindingNames e) \<longrightarrow>
              inputBlobIndex (fst (snd (initializationOnThread ev this dev))) = - 1)
         \<and> (''net_output'' \<notin> set (bindingNames e) \<longrightarrow>
              outputBlobIndex (fst (snd (initializationOnThread ev this dev))) = - 1)
         \<and> map fst (mallocs (snd (snd (initializationOnThread ev this dev))))
             = map fst (mallocs dev) @ [input_bytes, output_bytes]
         \<and> (input_bytes + output_bytes \<le> freeBytes dev \<longrightarrow>
              buffers (fst (snd (initializationOnThread ev this dev))) (- 1)
                \<in> {nextPtr dev, nextPtr dev + input_bytes}
              \<and> (lastError dev = 0 \<longrightarrow> fst (initializationOnThread ev this dev) = None))"
proof -
  have n: "getNbBindings e = 2"
    using assms(4) by (simp add: getNbBindings_def)
  note r = init_resolves_fixed_names [OF assms(1,2,3) n, of dev]
  note p = plan_loaded [OF assms(1,2)]
  have i: "''image'' \<notin> set (bindingNames e) \<Longrightarrow> getBindingIndex e ''image'' = - 1"
    and u: "''net_output'' \<notin> set (bindingNames e) \<Longrightarrow> getBindingIndex e ''net_output'' = - 1"
    by (simp_all add: getBindingIndex_def index_from_absent)
  have m: "map fst (mallocs (snd (snd (initializationOnThread ev this dev))))
             = map fst (mallocs dev) @ [input_bytes, output_bytes]"
    using p assms(3) n
    by (simp add: initializationOnThread_def NB_BINDINGS_def Let_def cudaMalloc_def)
  have b: "buffers (fst (snd (initializationOnThread ev this dev))) (- 1)
             \<in> {nextPtr dev, nextPtr dev + input_bytes}"
    and s: "lastError dev = 0 \<Longrightarrow> fst (initializationOnThread ev this dev) = None"
    if "input_bytes + output_bytes \<le> freeBytes dev"
    using that p assms(3,5) n i u
    by (auto simp add: initializationOnThread_def NB_BINDINGS_def Let_def cudaMalloc_def
          cudaCheck_def store_buffer_def byte_counts INPUT_BLOB_NAME_def OUTPUT_BLOB_NAME_def)
  show ?thesis
    using r(1,2,3) i u m b s by simp
qed

text \<open>An engine whose input is named "data".\<close>

theorem unresolved_slot_index_used_unchecked_witness:
  "length (bindingNames (demo_engine [''data'', ''net_output''])) = 2
   \<and> ''image'' \<notin> set (bindingNames (demo_engine [''data'', ''net_output'']))
   \<and> input_bytes + output_bytes \<le> freeBytes demo_device
   \<and> fst (initializationOnThread (demo_env [''data'', ''net_output'']) (demo_net ''net_output'')
            demo_device) = None
   \<and> inputBlobIndex (fst (snd (initializationOnThread (demo_env [''data'', ''net_output''])
        (demo_net ''net_output'') demo_device))) = - 1
   \<and> buffers (fst (snd (initializationOnThread (demo_env [''data'', ''net_output''])
        (demo_net ''net_output'') demo_device))) (- 1) = 4096"
proof -
  let ?names = "[''data'', ''net_output'']"
  have p: "files (demo_env ?names) (mRTPlan (demo_net ''net_output''))
             = Some \<lparr>fsize = 4, fdeliver = ''PLAN''\<rparr>"
    by (simp add: demo_plan demo_net_def)
  have l: "length (bindingNames (demo_engine ?names)) = 2"
    by (simp add: demo_engine_def)
  have a: "''image'' \<notin> set (bindingNames (demo_engine ?names))
             \<or> ''net_output'' \<notin> set (bindingNames (demo_engine ?names))"
    by (simp add: demo_engine_def)
  have x: "''image'' \<notin> set (bindingNames (demo_engine ?names))"
    "''net_output'' \<in> set (bindingNames (demo_engine ?names))"
    by (simp_all add: demo_engine_def)
  have d: "input_bytes + output_bytes \<le> freeBytes demo_device" "lastError demo_device = 0"
    "nextPtr demo_device = 4096"
    by (simp_all add: byte_counts demo_device_def)
  have o: "outputBlobIndex (fst (snd (initializationOnThread (demo_env ?names)
             (demo_net ''net_output'') demo_device))) = 1"
    using init_resolves_fixed_names(2) [OF p demo_plan(2,3) demo_two_bindings, of demo_device]
    by (simp add: getBindingIndex_def demo_engine_def)
  have c: "buffers (fst (snd (initializationOnThread (demo_env ?names)
             (demo_net ''net_output'') demo_device))) (- 1) = 4096"
    using demo_plan(3) [of ?names] plan_loaded [OF p demo_plan(2)]
    by (simp add: initializationOnThread_def NB_BINDINGS_def Let_def getNbBindings_def
          cudaMalloc_def store_buffer_def byte_counts demo_device_def getBindingIndex_def
          demo_engine_def INPUT_BLOB_NAME_def OUTPUT_BLOB_NAME_def)
  have t: "fst (initializationOnThread (demo_env ?names) (demo_net ''net_output'') demo_device)
             = None
           \<and> inputBlobIndex (fst (snd (initializationOnThread (demo_env ?names)
                (demo_net ''net_output'') demo_device))) = - 1"
    using x(1) d(1,2)
      unresolved_slot_index_used_unchecked [OF p demo_plan(2,3) l a, of demo_device]
    by blast
  show ?thesis
    using l x(1) d(1) c t by blast
qed

subsection \<open>Destruction after a successful initialization\<close>

text \<open>
  With two different slot indices the destructor releases exactly the two buffers the
  initialization allocated, each once.
\<close>

lemma dtor_after_init:
  assumes "initializationOnThread ev this dev = (None, this', dev')"
      and "inputBlobIndex this' \<noteq> outputBlobIndex this'"
  shows "\<exists>p q. mallocs dev' = mallocs dev @ [(input_bytes, Some p), (output_bytes, Some q)]
           \<and> frees (snd (ImplNetRT_dtor this' dev')) = frees dev @ [p, q]"
proof -
  from assms(1) obtain f e where f: "files ev (mRTPlan this) = Some f"
    and l: "fsize f \<le> length (fdeliver f)"
    and e: "deserializeCudaEngine ev (take (fsize f) (fdeliver f)) = Some e"
    and n: "getNbBindings e = 2"
    by (rule init_success)
  from assms [unfolded init_two_bindings [OF f l e n]] show ?thesis
    by (auto simp add: Let_def cudaMalloc_def cudaCheck_def store_buffer_def dtor_calls
          byte_counts split: if_splits)
qed

text \<open>
  With equal slot indices, as when neither name is found and both are -1, the second
  allocation overwrites the first in the one cell: the destructor releases the second
  buffer twice and the first never.
\<close>

lemma dtor_after_equal_slots:
  assumes "initializationOnThread ev this dev = (None, this', dev')"
      and "inputBlobIndex this' = outputBlobIndex this'"
  shows "\<exists>p q. p \<noteq> q
           \<and> mallocs dev' = mallocs dev @ [(input_bytes, Some p), (output_bytes, Some q)]
           \<and> frees (snd (ImplNetRT_dtor this' dev')) = frees dev @ [q, q]"
proof -
  from assms(1) obtain f e where f: "files ev (mRTPlan this) = Some f"
    and l: "fsize f \<le> length (fdeliver f)"
    and e: "deserializeCudaEngine ev (take (fsize f) (fdeliver f)) = Some e"
    and n: "getNbBindings e = 2"
    by (rule init_success)
  from assms [unfolded init_two_bindings [OF f l e n]] show ?thesis
    by (auto simp add: Let_def cudaMalloc_def cudaCheck_def store_buffer_def dtor_calls
          byte_counts split: if_splits)
qed

end
